theory Spec2Isabelle
  imports Main "HOL-Library.AList" "HOL-Library.Sublist"
begin

section \<open>The OpenAPI v2 converter of ndc-schema-tool (openapi/v2.go)\<close>

text \<open>
  A shallow embedding of \<^verbatim>\<open>src/openapi/v2.go\<close>: the document model the converter
  reads, the REST schema it writes, and the converter's functions with the schema under
  construction (\<^verbatim>\<open>oc.schema\<close>) passed explicitly. A Go \<^verbatim>\<open>error\<close> return and a
  run-time panic are values of the result type.
\<close>

subsection \<open>Results: Go errors and panics\<close>

datatype error =
    errParameterSchemaEmpty
  | CannotGetSchemaFromProxy string
  | ArrayItemIsEmpty
  | UnsupportedSchemaType string
  | UnsupportedObjectParameter
  | CannotParseTypeReferenceName string
  | ParameterNameIsEmpty
  | InvalidParameterLocation string
  | Prefixed string error

text \<open>
  \<open>Prefixed p e\<close> is \<^verbatim>\<open>fmt.Errorf("%s: %s", p, e)\<close>. A failure is either an error
  value handed back to the caller or a nil-pointer dereference, which unwinds the call
  stack.
\<close>

datatype failure = Error error | NilPointerPanic

type_synonym 'a result = "failure + 'a"

subsection \<open>Type expressions (ndc-sdk-go \<^verbatim>\<open>schema.TypeEncoder\<close>)\<close>

text \<open>
  Modelled from the spec: the Type Expression is a tagged union over Named(name),
  Nullable(inner) and Array(inner); the package that declares it (ndc-sdk-go) is not among
  the sources. \<^verbatim>\<open>NewNamedType\<close>, \<^verbatim>\<open>NewNullableType\<close> and \<^verbatim>\<open>NewArrayType\<close> are the
  three constructors, and \<^verbatim>\<open>Encode\<close> is kept as the expression itself.
\<close>

datatype TypeEncoder =
    NamedType string
  | NullableType TypeEncoder
  | ArrayType TypeEncoder

definition NewNullableNamedType :: "string \<Rightarrow> TypeEncoder" where
  "NewNullableNamedType name = NullableType (NamedType name)"

fun nullableDepth :: "TypeEncoder \<Rightarrow> nat" where
  "nullableDepth (NullableType t) = Suc (nullableDepth t)"
| "nullableDepth t = 0"

subsection \<open>The document model (libopenapi)\<close>

datatype ('a, 'b) DynamicValue = DynamicValue (dv_A: "'a option") (dv_B: 'b)

datatype Schema = Schema
  (schema_Type: "string list")
  (schema_Format: string)
  (schema_Title: string)
  (schema_Description: string)
  (schema_Enum: "string list")
  (schema_Nullable: "bool option")
  (schema_AnyOf: "SchemaProxy list")
  (schema_AdditionalProperties: "(SchemaProxy, bool) DynamicValue option")
  (schema_Properties: "(string \<times> SchemaProxy) list option")
  (schema_Required: "string list")
  (schema_Items: "(SchemaProxy, bool) DynamicValue option")
and SchemaProxy = SchemaProxy
  (GetReference: string)
  (proxy_Schema: "Schema option")

record Items =
  items_Type :: string

record Parameter =
  param_Name :: string
  param_In :: string
  param_Type :: string
  param_Format :: string
  param_Description :: string
  param_Required :: "bool option"
  param_Schema :: "SchemaProxy option"
  param_Items :: "Items option"
  param_Enum :: "string list"
  param_Pattern :: string
  param_Maximum :: "int option"
  param_Minimum :: "int option"
  param_MaxLength :: "int option"
  param_MinLength :: "int option"

record Response =
  resp_Schema :: "SchemaProxy option"

record Responses =
  resp_Codes :: "(string \<times> Response) list option"
  resp_Default :: "Response option"

type_synonym SecurityRequirement = "(string \<times> string list) list"

record Operation =
  op_OperationId :: string
  op_Summary :: string
  op_Parameters :: "Parameter option list"
  op_Responses :: "Responses option"
  op_Consumes :: "string list"
  op_Security :: "SecurityRequirement list"

record PathItem =
  path_Get :: "Operation option"
  path_Post :: "Operation option"
  path_Put :: "Operation option"
  path_Patch :: "Operation option"
  path_Delete :: "Operation option"

subsection \<open>The REST schema under construction\<close>

text \<open>
  \<^verbatim>\<open>rest.TypeSchema\<close>, the Type Descriptor. \<open>Maximum\<close> and \<open>Minimum\<close> are
  \<^verbatim>\<open>float64\<close> in the source; the converter only writes values converted from integers
  there, which are integers again, so the fields hold the integer value of the float.
  \<open>Properties\<close> is a Go map; it is kept as an association list with one entry per key,
  written with \<open>AList.update\<close>.
\<close>

datatype TypeSchema = TypeSchema
  (ts_Type: string)
  (ts_Nullable: bool)
  (ts_Description: string)
  (ts_Pattern: string)
  (ts_Maximum: "int option")
  (ts_Minimum: "int option")
  (ts_MaxLength: "int option")
  (ts_MinLength: "int option")
  (ts_Properties: "(string \<times> TypeSchema) list")
  (ts_Items: "TypeSchema option")

definition set_Type :: "string \<Rightarrow> TypeSchema \<Rightarrow> TypeSchema" where
  "set_Type v t = (case t of TypeSchema ty nu de pa ma mi mal mil pr it \<Rightarrow>
     TypeSchema v nu de pa ma mi mal mil pr it)"

definition set_Nullable :: "bool \<Rightarrow> TypeSchema \<Rightarrow> TypeSchema" where
  "set_Nullable v t = (case t of TypeSchema ty nu de pa ma mi mal mil pr it \<Rightarrow>
     TypeSchema ty v de pa ma mi mal mil pr it)"

definition set_Properties :: "(string \<times> TypeSchema) list \<Rightarrow> TypeSchema \<Rightarrow> TypeSchema" where
  "set_Properties v t = (case t of TypeSchema ty nu de pa ma mi mal mil pr it \<Rightarrow>
     TypeSchema ty nu de pa ma mi mal mil v it)"

definition set_Items :: "TypeSchema option \<Rightarrow> TypeSchema \<Rightarrow> TypeSchema" where
  "set_Items v t = (case t of TypeSchema ty nu de pa ma mi mal mil pr it \<Rightarrow>
     TypeSchema ty nu de pa ma mi mal mil pr v)"

text \<open>The composite literal \<^verbatim>\<open>rest.TypeSchema{Type: name}\<close>: every other field is zero.\<close>

definition TypeSchemaOfType :: "string \<Rightarrow> TypeSchema" where
  "TypeSchemaOfType name = TypeSchema name False [] [] None None None None [] None"

datatype ScalarType = ScalarType (scalar_Representation: "string list option")

definition NewScalarType :: ScalarType where
  "NewScalarType = ScalarType None"

record ObjectField =
  field_Type :: TypeEncoder
  field_Description :: "string option"

record ObjectType =
  object_Description :: "string option"
  object_Fields :: "string \<rightharpoonup> ObjectField"

record ArgumentInfo =
  arg_Type :: TypeEncoder
  arg_Description :: "string option"

datatype ParameterLocation = InQuery | InHeader | InPath | InBody | InFormData

record RequestParameter =
  rp_Name :: string
  rp_In :: ParameterLocation
  rp_Schema :: "TypeSchema option"

record RequestBody =
  body_ContentType :: string
  body_Schema :: "TypeSchema option"

record Request =
  req_URL :: string
  req_Method :: string
  req_Parameters :: "RequestParameter list"
  req_RequestBody :: "RequestBody option"
  req_Security :: "SecurityRequirement list"

record RESTFunctionInfo =
  fn_Request :: Request
  fn_Name :: string
  fn_Arguments :: "string \<rightharpoonup> ArgumentInfo"
  fn_ResultType :: TypeEncoder
  fn_Description :: "string option"

record RESTProcedureInfo =
  proc_Request :: Request
  proc_Name :: string
  proc_Arguments :: "string \<rightharpoonup> ArgumentInfo"
  proc_ResultType :: TypeEncoder
  proc_Description :: "string option"

record NDCRestSchema =
  ScalarTypes :: "string \<rightharpoonup> ScalarType"
  ObjectTypes :: "string \<rightharpoonup> ObjectType"
  Functions :: "RESTFunctionInfo list"
  Procedures :: "RESTProcedureInfo list"

record ConvertOptions =
  TrimPrefix :: string
  EnvPrefix :: string

subsection \<open>Functions declared outside \<^verbatim>\<open>v2.go\<close>\<close>

text \<open>
  The converter calls functions of its own package and of the \<^verbatim>\<open>rest\<close> package whose
  bodies are in other files. Those whose result the text of the specification does not
  determine are parameters of the model: every theorem below that mentions \<open>h\<close> holds for
  all of them. The scalar classifier \<^verbatim>\<open>getScalarFromType\<close> receives the schema under
  construction; it reads and writes the scalar registry only.
\<close>

record helpers =
  getScalarFromType :: "(string \<rightharpoonup> ScalarType) \<Rightarrow> string list \<Rightarrow> string \<Rightarrow> string list
     \<Rightarrow> string \<Rightarrow> string list \<Rightarrow> string \<times> (string \<rightharpoonup> ScalarType)"
  getSchemaRefTypeNameV2 :: "string \<Rightarrow> string"
  createSchemaFromOpenAPISchema :: "Schema \<Rightarrow> string \<Rightarrow> TypeSchema"
  getNamedType :: "TypeEncoder \<Rightarrow> string \<Rightarrow> string"
  ParseParameterLocation :: "string \<Rightarrow> error + ParameterLocation"
  buildPathMethodName :: "string \<Rightarrow> string \<Rightarrow> ConvertOptions \<Rightarrow> string"

text \<open>
  Modelled from the spec: \<^verbatim>\<open>isPrimitiveScalar\<close> is missing from the sources; the
  scalar kinds are string, number, integer and boolean.
\<close>

definition isPrimitiveScalar :: "string \<Rightarrow> bool" where
  "isPrimitiveScalar name = (name \<in> set [''string'', ''number'', ''integer'', ''boolean''])"

text \<open>
  Modelled from the spec: \<^verbatim>\<open>utils.ToPascalCase\<close> and \<^verbatim>\<open>utils.StringSliceToPascalCase\<close>
  are missing from the sources; the name of a field path is the PascalCase join of its
  segments (\<^verbatim>\<open>["Pet","Owner"]\<close> gives \<^verbatim>\<open>PetOwner\<close>). A segment is split at every
  character that is neither a letter nor a digit, and each part starts with a capital.
\<close>

definition isAlphaDigit :: "char \<Rightarrow> bool" where
  "isAlphaDigit c =
     (c \<in> set (''abcdefghijklmnopqrstuvwxyz'' @ ''ABCDEFGHIJKLMNOPQRSTUVWXYZ'' @ ''0123456789''))"

definition toUpper :: "char \<Rightarrow> char" where
  "toUpper c =
     (case map_of (zip ''abcdefghijklmnopqrstuvwxyz'' ''ABCDEFGHIJKLMNOPQRSTUVWXYZ'') c of
        Some u \<Rightarrow> u
      | None \<Rightarrow> c)"

fun pascalParts :: "bool \<Rightarrow> string \<Rightarrow> string" where
  "pascalParts up [] = []"
| "pascalParts up (c # cs) =
     (if isAlphaDigit c then (if up then toUpper c else c) # pascalParts False cs
      else pascalParts True cs)"

definition ToPascalCase :: "string \<Rightarrow> string" where
  "ToPascalCase input = pascalParts True input"

definition StringSliceToPascalCase :: "string list \<Rightarrow> string" where
  "StringSliceToPascalCase inputs = concat (map ToPascalCase inputs)"

text \<open>
  Modelled from the spec: the constants of the \<^verbatim>\<open>rest\<close> package,
  \<^verbatim>\<open>ContentTypeJSON\<close> and \<^verbatim>\<open>ContentTypeMultipartFormData\<close>.
\<close>

definition ContentTypeJSON :: string where
  "ContentTypeJSON = ''application/json''"

definition ContentTypeMultipartFormData :: string where
  "ContentTypeMultipartFormData = ''multipart/form-data''"

text \<open>
  Modelled from the spec: \<^verbatim>\<open>convertSecurities\<close> copies the security requirements
  through unchanged, and an absent list is the empty list.
\<close>

definition convertSecurities :: "SecurityRequirement list \<Rightarrow> SecurityRequirement list" where
  "convertSecurities security = security"

subsection \<open>The Type Resolver\<close>

text \<open>\<^verbatim>\<open>trimPathPrefix\<close> (lines 619-624); \<^verbatim>\<open>strings.TrimPrefix\<close> drops a leading copy.\<close>

definition trimPathPrefix :: "ConvertOptions \<Rightarrow> string \<Rightarrow> string" where
  "trimPathPrefix opts input =
     (if TrimPrefix opts = [] then input
      else if prefix (TrimPrefix opts) input then drop (length (TrimPrefix opts)) input
      else input)"

text \<open>
  The last statement of \<^verbatim>\<open>getSchemaType\<close> (lines 571-574): the schema's own
  \<^verbatim>\<open>nullable\<close> flag wraps the result.
\<close>

definition applySchemaNullable ::
  "bool option \<Rightarrow> TypeEncoder \<Rightarrow> TypeSchema \<Rightarrow> NDCRestSchema
     \<Rightarrow> (TypeEncoder \<times> TypeSchema) result \<times> NDCRestSchema" where
  "applySchemaNullable nullable result typeResult st =
     (if nullable = Some True then (Inr (NullableType result, typeResult), st)
      else (Inr (result, typeResult), st))"

text \<open>
  \<^verbatim>\<open>getSchemaType\<close> (lines 475-575), \<^verbatim>\<open>getSchemaTypeFromProxy\<close> (lines 407-438) and
  the loop over the properties of an object (lines 521-537), which carries the property
  descriptors and the object fields written so far. A schema is a finite tree here: a
  reference holds the name and the schema it resolves to.
\<close>

function
  getSchemaType :: "helpers \<Rightarrow> ConvertOptions \<Rightarrow> Schema option \<Rightarrow> string \<Rightarrow> string list
     \<Rightarrow> NDCRestSchema \<Rightarrow> (TypeEncoder \<times> TypeSchema) result \<times> NDCRestSchema"
and
  getSchemaTypeFromProxy :: "helpers \<Rightarrow> ConvertOptions \<Rightarrow> SchemaProxy option \<Rightarrow> bool \<Rightarrow> string
     \<Rightarrow> string list \<Rightarrow> NDCRestSchema \<Rightarrow> (TypeEncoder \<times> TypeSchema) result \<times> NDCRestSchema"
and
  convertProperties :: "helpers \<Rightarrow> ConvertOptions \<Rightarrow> string list \<Rightarrow> string \<Rightarrow> string list
     \<Rightarrow> (string \<times> SchemaProxy) list
     \<Rightarrow> (string \<times> TypeSchema) list \<times> (string \<rightharpoonup> ObjectField)
     \<Rightarrow> NDCRestSchema
     \<Rightarrow> ((string \<times> TypeSchema) list \<times> (string \<rightharpoonup> ObjectField)) result \<times> NDCRestSchema"
where
  "getSchemaType h opts None apiPath fieldPaths st = (Inl (Error errParameterSchemaEmpty), st)"
| "getSchemaType h opts
     (Some (Schema types format title description enum nullable anyOf additionalProperties
        properties required items))
     apiPath fieldPaths st =
   (let typeSchema = Schema types format title description enum nullable anyOf
          additionalProperties properties required items
    in
    if length anyOf > 0 \<or> additionalProperties \<noteq> None \<or> length types > 1 then
      (let scalarName = ''JSON'';
           st1 = (if ScalarTypes st scalarName = None
                  then st\<lparr>ScalarTypes := (ScalarTypes st)(scalarName \<mapsto> NewScalarType)\<rparr>
                  else st);
           typeResult = createSchemaFromOpenAPISchema h typeSchema scalarName
       in (Inr (NamedType scalarName, typeResult), st1))
    else if length types = 0 then (Inl (Error errParameterSchemaEmpty), st)
    else
      (let typeName = hd types in
       if isPrimitiveScalar typeName then
         (let (scalarName, scalars) =
                getScalarFromType h (ScalarTypes st) types format enum
                  (trimPathPrefix opts apiPath) fieldPaths;
              st1 = st\<lparr>ScalarTypes := scalars\<rparr>;
              typeResult = createSchemaFromOpenAPISchema h typeSchema scalarName
          in applySchemaNullable nullable (NamedType scalarName) typeResult st1)
       else
         (let typeResult = set_Type typeName (createSchemaFromOpenAPISchema h typeSchema [])
          in
          if typeName = ''object'' then
            (let refName = StringSliceToPascalCase fieldPaths in
             if properties = None \<or> properties = Some [] then
               applySchemaNullable nullable (NamedType refName) typeResult
                 (st\<lparr>ScalarTypes := (ScalarTypes st)(refName \<mapsto> NewScalarType)\<rparr>)
             else
               (case convertProperties h opts required apiPath fieldPaths (the properties)
                       ([], Map.empty) st of
                  (Inl e, st1) \<Rightarrow> (Inl e, st1)
                | (Inr (props, objFields), st1) \<Rightarrow>
                    (let object = \<lparr>object_Description =
                                     (if description \<noteq> [] then Some description else None),
                                   object_Fields = objFields\<rparr>
                     in applySchemaNullable nullable (NamedType refName)
                          (set_Properties props typeResult)
                          (st1\<lparr>ObjectTypes := (ObjectTypes st1)(refName \<mapsto> object)\<rparr>))))
          else if typeName = ''array'' then
            (case items of
               None \<Rightarrow> (Inl (Error ArrayItemIsEmpty), st)
             | Some (DynamicValue None b) \<Rightarrow> (Inl (Error ArrayItemIsEmpty), st)
             | Some (DynamicValue (Some a) b) \<Rightarrow>
                 (let itemName = getSchemaRefTypeNameV2 h (GetReference a) in
                  if itemName \<noteq> [] then
                    applySchemaNullable nullable (ArrayType (NamedType itemName)) typeResult st
                  else
                    (case proxy_Schema a of
                       None \<Rightarrow> (Inl (Error (CannotParseTypeReferenceName (GetReference a))), st)
                     | Some itemSchemaA \<Rightarrow>
                         (case getSchemaType h opts (Some itemSchemaA) apiPath fieldPaths st of
                            (Inl e, st1) \<Rightarrow> (Inl e, st1)
                          | (Inr (itemSchema, propType), st1) \<Rightarrow>
                              applySchemaNullable nullable (ArrayType itemSchema)
                                (set_Items (Some propType) typeResult) st1))))
          else (Inl (Error (UnsupportedSchemaType typeName)), st))))"
| "getSchemaTypeFromProxy h opts None nullable apiPath fieldPaths st =
     (Inl (Error errParameterSchemaEmpty), st)"
| "getSchemaTypeFromProxy h opts (Some (SchemaProxy reference None)) nullable apiPath fieldPaths st =
     (Inl (Error (CannotGetSchemaFromProxy reference)), st)"
| "getSchemaTypeFromProxy h opts (Some (SchemaProxy reference (Some innerSchema))) nullable
     apiPath fieldPaths st =
   (let refName = getSchemaRefTypeNameV2 h reference in
    if refName \<noteq> [] \<and> length (schema_Type innerSchema) > 0
       \<and> hd (schema_Type innerSchema) = ''object'' then
      (let ndcType = NamedType (ToPascalCase refName);
           typeSchema = TypeSchemaOfType refName
       in (Inr (if nullable then NullableType ndcType else ndcType, typeSchema), st))
    else
      (let fieldPaths1 =
             (if schema_Title innerSchema \<noteq> [] \<and> CHR '' '' \<notin> set (schema_Title innerSchema)
              then [ToPascalCase (schema_Title innerSchema)] else fieldPaths)
       in
       case getSchemaType h opts (Some innerSchema) apiPath fieldPaths1 st of
         (Inl e, st1) \<Rightarrow> (Inl e, st1)
       | (Inr (ndcType, typeSchema), st1) \<Rightarrow>
           (Inr (if nullable then NullableType ndcType else ndcType, typeSchema), st1)))"
| "convertProperties h opts required apiPath fieldPaths [] acc st = (Inr acc, st)"
| "convertProperties h opts required apiPath fieldPaths ((propName, propValue) # rest) acc st =
   (let nullable = (propName \<notin> set required) in
    case getSchemaTypeFromProxy h opts (Some propValue) nullable apiPath
           (fieldPaths @ [propName]) st of
      (Inl e, st1) \<Rightarrow> (Inl e, st1)
    | (Inr (propType, propApiSchema), st1) \<Rightarrow>
        (let objField = \<lparr>field_Type = propType,
                         field_Description =
                           (if ts_Description propApiSchema \<noteq> []
                            then Some (ts_Description propApiSchema) else None)\<rparr>;
             propApiSchema1 = set_Nullable nullable propApiSchema
         in convertProperties h opts required apiPath fieldPaths rest
              (AList.update propName propApiSchema1 (fst acc), (snd acc)(propName \<mapsto> objField))
              st1))"
  by pat_completeness auto

lemma size_proxy_Schema: "proxy_Schema p = Some s \<Longrightarrow> size s < size p"
  by (cases p) auto

termination getSchemaType
proof (relation "measure (\<lambda>x. case x of
      Inl (h, opts, s, ap, fp, st) \<Rightarrow> 2 * size_option size s
    | Inr (Inl (h, opts, p, n, ap, fp, st)) \<Rightarrow> 2 * size_option size p
    | Inr (Inr (h, opts, req, ap, fp, ps, acc, st)) \<Rightarrow>
        2 * size_list (size_prod (\<lambda>_. 0) size) ps + 1)", goal_cases)
  case 1
  show ?case by simp
next
  case 2
  then show ?case by auto
next
  case (3 h opts types format title description enum nullable anyOf additionalProperties
      properties required items apiPath fieldPaths st x xa xb x2 x1 x2a x2b xc x2c)
  then show ?case using size_proxy_Schema [of x2b x2c] by auto
qed simp_all

subsection \<open>The Parameter Converter\<close>

text \<open>
  \<^verbatim>\<open>getSchemaTypeFromParameter\<close> (lines 441-472). The guard of the array case is
  \<^verbatim>\<open>param.Items == nil && param.Items.Type == ""\<close>: when \<^verbatim>\<open>Items\<close> is nil the right
  operand reads through the nil pointer; when it is not, the left operand is false and the
  guard is skipped whatever the item type is.
\<close>

definition getSchemaTypeFromParameter ::
  "helpers \<Rightarrow> ConvertOptions \<Rightarrow> Parameter \<Rightarrow> string \<Rightarrow> string list \<Rightarrow> NDCRestSchema
     \<Rightarrow> TypeEncoder result \<times> NDCRestSchema" where
  "getSchemaTypeFromParameter h opts param apiPath fieldPaths st =
     (if param_Type param = [] then (Inl (Error errParameterSchemaEmpty), st)
      else
        (let ret = (\<lambda>result.
               if param_Required param = None \<or> param_Required param = Some False
               then NullableType result else result)
         in
         if isPrimitiveScalar (param_Type param) then
           (let (scalarName, scalars) =
                  getScalarFromType h (ScalarTypes st) [param_Type param] (param_Format param)
                    (param_Enum param) (trimPathPrefix opts apiPath) fieldPaths
            in (Inr (ret (NamedType scalarName)), st\<lparr>ScalarTypes := scalars\<rparr>))
         else if param_Type param = ''object'' then (Inl (Error UnsupportedObjectParameter), st)
         else if param_Type param = ''array'' then
           (case param_Items param of
              None \<Rightarrow> (Inl NilPointerPanic, st)
            | Some items \<Rightarrow>
                (let (itemName, scalars) =
                       getScalarFromType h (ScalarTypes st) [items_Type items]
                         (param_Format param) (param_Enum param)
                         (trimPathPrefix opts apiPath) fieldPaths
                 in (Inr (ret (ArrayType (NamedType itemName))), st\<lparr>ScalarTypes := scalars\<rparr>)))
         else (Inl (Error (UnsupportedSchemaType (param_Type param))), st)))"

text \<open>
  The conversion \<^verbatim>\<open>float64(n)\<close> of an integer (lines 340 and 344): the nearest value
  with a significand of 53 bits, a tie going to the even significand. An integer of at
  most 53 bits is kept; a longer one loses its low bits.
\<close>

fun bitLength :: "nat \<Rightarrow> nat" where
  "bitLength 0 = 0"
| "bitLength (Suc n) = Suc (bitLength (Suc n div 2))"

definition float64OfNat :: "nat \<Rightarrow> nat" where
  "float64OfNat n =
     (let e = bitLength n - 53; q = n div 2 ^ e; r = n mod 2 ^ e in
      if e = 0 then n
      else if 2 * r > 2 ^ e \<or> (2 * r = 2 ^ e \<and> odd q) then (q + 1) * 2 ^ e
      else q * 2 ^ e)"

definition float64 :: "int \<Rightarrow> int" where
  "float64 i = (if i < 0 then - int (float64OfNat (nat (- i))) else int (float64OfNat (nat i)))"

text \<open>
  The first half of the loop body of \<^verbatim>\<open>convertParameters\<close> (lines 319-360): the type
  expression and the descriptor of one parameter. Both stay nil when the parameter has
  neither a type nor a schema.
\<close>

definition resolveParameterType ::
  "helpers \<Rightarrow> ConvertOptions \<Rightarrow> Parameter \<Rightarrow> string \<Rightarrow> string list \<Rightarrow> NDCRestSchema
     \<Rightarrow> (TypeEncoder option \<times> TypeSchema option) result \<times> NDCRestSchema" where
  "resolveParameterType h opts param apiPath fieldPaths st =
     (let paramRequired = (param_Required param = Some True) in
      if param_Type param \<noteq> [] then
        (case getSchemaTypeFromParameter h opts param apiPath fieldPaths st of
           (Inl e, st1) \<Rightarrow> (Inl e, st1)
         | (Inr schemaType, st1) \<Rightarrow>
             (let nullable = \<not> paramRequired;
                  typeSchema = TypeSchema (getNamedType h schemaType (param_Type param))
                    nullable [] (param_Pattern param) (map_option float64 (param_Maximum param))
                    (map_option float64 (param_Minimum param)) (param_MaxLength param)
                    (param_MinLength param)
                    [] None
              in (Inr (Some schemaType, Some typeSchema), st1)))
      else if param_Schema param \<noteq> None then
        (case getSchemaTypeFromProxy h opts (param_Schema param) (\<not> paramRequired) apiPath
                fieldPaths st of
           (Inl e, st1) \<Rightarrow> (Inl e, st1)
         | (Inr (schemaType, typeSchema), st1) \<Rightarrow> (Inr (Some schemaType, Some typeSchema), st1))
      else (Inr (None, None), st))"

text \<open>
  What the loop of \<^verbatim>\<open>convertParameters\<close> carries: the argument map, the request
  parameters, the request body and the properties of the form-data object.
\<close>

type_synonym paramAcc =
  "(string \<rightharpoonup> ArgumentInfo) \<times> RequestParameter list \<times> RequestBody option
     \<times> (string \<times> TypeSchema) list"

text \<open>
  The loop body for a parameter that is not nil (lines 314-392).
  \<^verbatim>\<open>schemaType.Encode()\<close> is a method call on an interface value; on the nil interface
  it panics.
\<close>

definition convertParameter ::
  "helpers \<Rightarrow> ConvertOptions \<Rightarrow> string \<Rightarrow> string list \<Rightarrow> Parameter \<Rightarrow> paramAcc
     \<Rightarrow> NDCRestSchema \<Rightarrow> paramAcc result \<times> NDCRestSchema" where
  "convertParameter h opts apiPath fieldPaths param acc st =
     (case acc of (arguments, reqParams, requestBody, formProps) \<Rightarrow>
      let paramName = param_Name param in
      if paramName = [] then (Inl (Error ParameterNameIsEmpty), st)
      else
        (case resolveParameterType h opts param apiPath fieldPaths st of
           (Inl e, st1) \<Rightarrow> (Inl e, st1)
         | (Inr (schemaType, typeSchema), st1) \<Rightarrow>
             (case ParseParameterLocation h (param_In param) of
                Inl e \<Rightarrow> (Inl (Error e), st1)
              | Inr paramLocation \<Rightarrow>
                  (case schemaType of
                     None \<Rightarrow> (Inl NilPointerPanic, st1)
                   | Some t \<Rightarrow>
                       (let argument = \<lparr>arg_Type = t,
                                         arg_Description =
                                           (if param_Description param \<noteq> []
                                            then Some (param_Description param) else None)\<rparr>
                        in
                        case paramLocation of
                          InBody \<Rightarrow>
                            (Inr (arguments(''body'' \<mapsto> argument), reqParams,
                                  Some \<lparr>body_ContentType = [], body_Schema = typeSchema\<rparr>,
                                  formProps), st1)
                        | InFormData \<Rightarrow>
                            (Inr (arguments(paramName \<mapsto> argument), reqParams, requestBody,
                                  (case typeSchema of
                                     None \<Rightarrow> formProps
                                   | Some ts \<Rightarrow> AList.update paramName ts formProps)), st1)
                        | _ \<Rightarrow>
                            (Inr (arguments(paramName \<mapsto> argument),
                                  reqParams @ [\<lparr>rp_Name = paramName, rp_In = paramLocation,
                                                rp_Schema = typeSchema\<rparr>],
                                  requestBody, formProps), st1))))))"

text \<open>The loop (lines 310-393): a nil parameter is skipped, the first failure returns.\<close>

fun convertParametersLoop ::
  "helpers \<Rightarrow> ConvertOptions \<Rightarrow> string \<Rightarrow> string list \<Rightarrow> Parameter option list \<Rightarrow> paramAcc
     \<Rightarrow> NDCRestSchema \<Rightarrow> paramAcc result \<times> NDCRestSchema" where
  "convertParametersLoop h opts apiPath fieldPaths [] acc st = (Inr acc, st)"
| "convertParametersLoop h opts apiPath fieldPaths (None # rest) acc st =
     convertParametersLoop h opts apiPath fieldPaths rest acc st"
| "convertParametersLoop h opts apiPath fieldPaths (Some param # rest) acc st =
     (case convertParameter h opts apiPath fieldPaths param acc st of
        (Inl e, st1) \<Rightarrow> (Inl e, st1)
      | (Inr acc1, st1) \<Rightarrow> convertParametersLoop h opts apiPath fieldPaths rest acc1 st1)"

text \<open>\<^verbatim>\<open>convertParameters\<close> (lines 296-404).\<close>

definition convertParameters ::
  "helpers \<Rightarrow> ConvertOptions \<Rightarrow> Parameter option list \<Rightarrow> string \<Rightarrow> string list
     \<Rightarrow> NDCRestSchema
     \<Rightarrow> ((string \<rightharpoonup> ArgumentInfo) \<times> RequestParameter list \<times> RequestBody option) result
        \<times> NDCRestSchema" where
  "convertParameters h opts params apiPath fieldPaths st =
     (if length params = 0 then (Inr (Map.empty, [], None), st)
      else
        (case convertParametersLoop h opts apiPath fieldPaths params
                (Map.empty, [], None, []) st of
           (Inl e, st1) \<Rightarrow> (Inl e, st1)
         | (Inr (arguments, reqParams, requestBody, formProps), st1) \<Rightarrow>
             (let formData = set_Properties formProps (TypeSchemaOfType ''object'') in
              if length formProps > 0 then
                (Inr (arguments, reqParams,
                      Some \<lparr>body_ContentType = ContentTypeMultipartFormData,
                            body_Schema = Some formData\<rparr>), st1)
              else (Inr (arguments, reqParams, requestBody), st1))))"

subsection \<open>The Response Resolver\<close>

text \<open>
  The loop over the three status codes (lines 587-593); \<^verbatim>\<open>GetOrZero\<close> is nil for a
  code that is not declared.
\<close>

fun firstResponse :: "(string \<times> Response) list \<Rightarrow> string list \<Rightarrow> Response option" where
  "firstResponse codes [] = None"
| "firstResponse codes (code # rest) =
     (case map_of codes code of
        Some res \<Rightarrow> Some res
      | None \<Rightarrow> firstResponse codes rest)"

text \<open>The response whose schema is resolved (lines 582-594).\<close>

definition selectResponse :: "Responses \<Rightarrow> Response option" where
  "selectResponse responses =
     (case resp_Codes responses of
        None \<Rightarrow> resp_Default responses
      | Some codes \<Rightarrow>
          if codes = [] then resp_Default responses
          else firstResponse codes [''200'', ''201'', ''204''])"

text \<open>
  The result type of the selected response (lines 596-605); nil selects nothing.
\<close>

definition responseResultType ::
  "helpers \<Rightarrow> ConvertOptions \<Rightarrow> Response option \<Rightarrow> string \<Rightarrow> string list \<Rightarrow> NDCRestSchema
     \<Rightarrow> TypeEncoder option result \<times> NDCRestSchema" where
  "responseResultType h opts resp apiPath fieldPaths st =
     (case resp of
        None \<Rightarrow> (Inr (Some (NewNullableNamedType ''Boolean'')), st)
      | Some r \<Rightarrow>
          (case resp_Schema r of
             None \<Rightarrow> (Inr (Some (NewNullableNamedType ''Boolean'')), st)
           | Some proxy \<Rightarrow>
               (case getSchemaTypeFromProxy h opts (Some proxy) False apiPath fieldPaths st of
                  (Inl e, st1) \<Rightarrow> (Inl e, st1)
                | (Inr (schemaType, typeSchema), st1) \<Rightarrow> (Inr (Some schemaType), st1))))"

text \<open>
  \<^verbatim>\<open>convertResponse\<close> (lines 577-606). A result of \<open>Inr None\<close> is the Go return
  \<^verbatim>\<open>nil, nil\<close>: no result type and no error.
\<close>

definition convertResponse ::
  "helpers \<Rightarrow> ConvertOptions \<Rightarrow> Responses option \<Rightarrow> string \<Rightarrow> string list \<Rightarrow> NDCRestSchema
     \<Rightarrow> TypeEncoder option result \<times> NDCRestSchema" where
  "convertResponse h opts responses apiPath fieldPaths st =
     (case responses of
        None \<Rightarrow> (Inr None, st)
      | Some rs \<Rightarrow>
          if resp_Codes rs = None \<or> resp_Codes rs = Some [] then (Inr None, st)
          else responseResultType h opts (selectResponse rs) apiPath fieldPaths st)"

subsection \<open>The Operation Mapper\<close>

text \<open>
  \<^verbatim>\<open>fmt.Errorf("%s: %s", prefix, err)\<close> on the error path of a caller; a panic is not
  an error value and passes through.
\<close>

fun wrapError :: "string \<Rightarrow> failure \<Rightarrow> failure" where
  "wrapError p (Error e) = Error (Prefixed p e)"
| "wrapError p NilPointerPanic = NilPointerPanic"

text \<open>\<^verbatim>\<open>convertProcedureOperation\<close> (lines 241-294).\<close>

definition convertProcedureOperation ::
  "helpers \<Rightarrow> ConvertOptions \<Rightarrow> string \<Rightarrow> string \<Rightarrow> Operation option \<Rightarrow> NDCRestSchema
     \<Rightarrow> RESTProcedureInfo option result \<times> NDCRestSchema" where
  "convertProcedureOperation h opts pathKey method operation st =
     (case operation of
        None \<Rightarrow> (Inr None, st)
      | Some operation \<Rightarrow>
          (let procName = (if op_OperationId operation = []
                           then buildPathMethodName h pathKey method opts
                           else op_OperationId operation)
           in
           case convertResponse h opts (op_Responses operation) pathKey
                  [procName, ''Result''] st of
             (Inl e, st1) \<Rightarrow> (Inl (wrapError pathKey e), st1)
           | (Inr None, st1) \<Rightarrow> (Inr None, st1)
           | (Inr (Some resultType), st1) \<Rightarrow>
               (case convertParameters h opts (op_Parameters operation) pathKey [procName] st1 of
                  (Inl e, st2) \<Rightarrow> (Inl (wrapError pathKey e), st2)
                | (Inr (arguments, reqParams, reqBody), st2) \<Rightarrow>
                    (let reqBody1 =
                           (case reqBody of
                              None \<Rightarrow> None
                            | Some body \<Rightarrow>
                                if length (op_Consumes operation) > 0 then
                                  (let contentType =
                                         (if ContentTypeJSON \<in> set (op_Consumes operation)
                                          then ContentTypeJSON
                                          else hd (op_Consumes operation))
                                   in Some (body\<lparr>body_ContentType := contentType\<rparr>))
                                else Some body);
                         procedure =
                           \<lparr>proc_Request =
                              \<lparr>req_URL = pathKey, req_Method = method,
                               req_Parameters = reqParams, req_RequestBody = reqBody1,
                               req_Security = convertSecurities (op_Security operation)\<rparr>,
                            proc_Name = procName,
                            proc_Arguments = arguments,
                            proc_ResultType = resultType,
                            proc_Description =
                              (if op_Summary operation \<noteq> []
                               then Some (op_Summary operation) else None)\<rparr>
                     in (Inr (Some procedure), st2)))))"

text \<open>
  One of the four blocks of \<^verbatim>\<open>pathToNDCOperations\<close> for the mutating methods
  (lines 207-237): convert, return the error, append the procedure when there is one.
\<close>

definition addProcedure ::
  "helpers \<Rightarrow> ConvertOptions \<Rightarrow> string \<Rightarrow> string \<Rightarrow> Operation option \<Rightarrow> NDCRestSchema
     \<Rightarrow> unit result \<times> NDCRestSchema" where
  "addProcedure h opts pathKey method operation st =
     (case convertProcedureOperation h opts pathKey method operation st of
        (Inl e, st1) \<Rightarrow> (Inl e, st1)
      | (Inr None, st1) \<Rightarrow> (Inr (), st1)
      | (Inr (Some procedure), st1) \<Rightarrow>
          (Inr (), st1\<lparr>Procedures := Procedures st1 @ [procedure]\<rparr>))"

text \<open>The GET block of \<^verbatim>\<open>pathToNDCOperations\<close> (lines 168-205).\<close>

definition addFunction ::
  "helpers \<Rightarrow> ConvertOptions \<Rightarrow> string \<Rightarrow> Operation option \<Rightarrow> NDCRestSchema
     \<Rightarrow> unit result \<times> NDCRestSchema" where
  "addFunction h opts pathKey operation st =
     (case operation of
        None \<Rightarrow> (Inr (), st)
      | Some itemGet \<Rightarrow>
          (let funcName = (if op_OperationId itemGet = []
                           then buildPathMethodName h pathKey ''get'' opts
                           else op_OperationId itemGet)
           in
           case convertResponse h opts (op_Responses itemGet) pathKey
                  [funcName, ''Result''] st of
             (Inl e, st1) \<Rightarrow> (Inl (wrapError pathKey e), st1)
           | (Inr None, st1) \<Rightarrow> (Inr (), st1)
           | (Inr (Some resultType), st1) \<Rightarrow>
               (case convertParameters h opts (op_Parameters itemGet) pathKey [funcName] st1 of
                  (Inl e, st2) \<Rightarrow> (Inl (wrapError funcName e), st2)
                | (Inr (arguments, reqParams, reqBody), st2) \<Rightarrow>
                    (let function =
                           \<lparr>fn_Request =
                              \<lparr>req_URL = pathKey, req_Method = ''get'',
                               req_Parameters = reqParams, req_RequestBody = reqBody,
                               req_Security = convertSecurities (op_Security itemGet)\<rparr>,
                            fn_Name = funcName,
                            fn_Arguments = arguments,
                            fn_ResultType = resultType,
                            fn_Description =
                              (if op_Summary itemGet \<noteq> []
                               then Some (op_Summary itemGet) else None)\<rparr>
                     in (Inr (), st2\<lparr>Functions := Functions st2 @ [function]\<rparr>)))))"

text \<open>\<^verbatim>\<open>pathToNDCOperations\<close> (lines 165-239).\<close>

definition pathToNDCOperations ::
  "helpers \<Rightarrow> ConvertOptions \<Rightarrow> string \<Rightarrow> PathItem \<Rightarrow> NDCRestSchema
     \<Rightarrow> unit result \<times> NDCRestSchema" where
  "pathToNDCOperations h opts pathKey pathValue st =
     (case addFunction h opts pathKey (path_Get pathValue) st of
        (Inl e, st1) \<Rightarrow> (Inl e, st1)
      | (Inr u1, st1) \<Rightarrow>
     (case addProcedure h opts pathKey ''post'' (path_Post pathValue) st1 of
        (Inl e, st2) \<Rightarrow> (Inl e, st2)
      | (Inr u2, st2) \<Rightarrow>
     (case addProcedure h opts pathKey ''put'' (path_Put pathValue) st2 of
        (Inl e, st3) \<Rightarrow> (Inl e, st3)
      | (Inr u3, st3) \<Rightarrow>
     (case addProcedure h opts pathKey ''patch'' (path_Patch pathValue) st3 of
        (Inl e, st4) \<Rightarrow> (Inl e, st4)
      | (Inr u4, st4) \<Rightarrow>
          addProcedure h opts pathKey ''delete'' (path_Delete pathValue) st4))))"

subsection \<open>Concrete documents\<close>

text \<open>
  One choice of the helper functions, on which the converter is run on the concrete
  documents below: a scalar is named after its type, a reference
  \<^verbatim>\<open>#/definitions/Name\<close> names \<^verbatim>\<open>Name\<close>, a descriptor records the type name and the
  schema's nullable flag and description, and the locations are those of OpenAPI v2.
\<close>

fun namedTypeOf :: "TypeEncoder \<Rightarrow> string \<Rightarrow> string" where
  "namedTypeOf (NamedType n) d = n"
| "namedTypeOf (NullableType t) d = namedTypeOf t d"
| "namedTypeOf (ArrayType t) d = d"

definition sampleHelpers :: helpers where
  "sampleHelpers =
     \<lparr>getScalarFromType = (\<lambda>scalars names format enum apiPath fieldPaths.
        (let name = (case names of [n] \<Rightarrow> ToPascalCase n | _ \<Rightarrow> ''JSON'')
         in (name, if scalars name = None then scalars(name \<mapsto> NewScalarType) else scalars))),
      getSchemaRefTypeNameV2 = (\<lambda>r.
        if prefix ''#/definitions/'' r then drop (length ''#/definitions/'') r else []),
      createSchemaFromOpenAPISchema = (\<lambda>s typeName.
        TypeSchema typeName (schema_Nullable s = Some True) (schema_Description s) []
          None None None None [] None),
      getNamedType = namedTypeOf,
      ParseParameterLocation = (\<lambda>l.
        if l = ''query'' then Inr InQuery
        else if l = ''header'' then Inr InHeader
        else if l = ''path'' then Inr InPath
        else if l = ''body'' then Inr InBody
        else if l = ''formData'' then Inr InFormData
        else Inl (InvalidParameterLocation l)),
      buildPathMethodName = (\<lambda>path method opts. method @ ToPascalCase path)\<rparr>"

definition sampleOptions :: ConvertOptions where
  "sampleOptions = \<lparr>TrimPrefix = [], EnvPrefix = []\<rparr>"

text \<open>\<^verbatim>\<open>rest.NewNDCRestSchema()\<close>: empty registries and operation lists.\<close>

definition NewNDCRestSchema :: NDCRestSchema where
  "NewNDCRestSchema =
     \<lparr>ScalarTypes = Map.empty, ObjectTypes = Map.empty, Functions = [], Procedures = []\<rparr>"

text \<open>A schema with the given types and nullable flag and nothing else.\<close>

definition plainSchema :: "string list \<Rightarrow> bool option \<Rightarrow> Schema" where
  "plainSchema types nullable = Schema types [] [] [] [] nullable [] None None [] None"

definition inlineProxy :: "Schema \<Rightarrow> SchemaProxy" where
  "inlineProxy s = SchemaProxy [] (Some s)"

text \<open>A parameter with a name, a location and a type and nothing else.\<close>

definition plainParameter :: "string \<Rightarrow> string \<Rightarrow> string \<Rightarrow> bool option \<Rightarrow> Parameter" where
  "plainParameter name location type required =
     \<lparr>param_Name = name, param_In = location, param_Type = type, param_Format = [],
      param_Description = [], param_Required = required, param_Schema = None,
      param_Items = None, param_Enum = [], param_Pattern = [], param_Maximum = None,
      param_Minimum = None, param_MaxLength = None, param_MinLength = None\<rparr>"

definition plainOperation ::
  "string \<Rightarrow> Parameter option list \<Rightarrow> Responses option \<Rightarrow> string list \<Rightarrow> Operation" where
  "plainOperation name params responses consumes =
     \<lparr>op_OperationId = name, op_Summary = [], op_Parameters = params,
      op_Responses = responses, op_Consumes = consumes, op_Security = []\<rparr>"

definition stringResponse :: Response where
  "stringResponse = \<lparr>resp_Schema = Some (inlineProxy (plainSchema [''string''] None))\<rparr>"

definition emptyResponse :: Response where
  "emptyResponse = \<lparr>resp_Schema = None\<rparr>"

definition responsesOnly404 :: Responses where
  "responsesOnly404 = \<lparr>resp_Codes = Some [(''404'', emptyResponse)], resp_Default = Some stringResponse\<rparr>"

definition responses201 :: Responses where
  "responses201 = \<lparr>resp_Codes = Some [(''404'', emptyResponse), (''201'', stringResponse)], resp_Default = None\<rparr>"

definition responses200NoContent :: Responses where
  "responses200NoContent = \<lparr>resp_Codes = Some [(''200'', emptyResponse)], resp_Default = None\<rparr>"

definition bodyParameter :: "bool option \<Rightarrow> Schema \<Rightarrow> Parameter" where
  "bodyParameter required s =
     (plainParameter ''body'' ''body'' [] required)\<lparr>param_Schema := Some (inlineProxy s)\<rparr>"

definition createPet :: "string list \<Rightarrow> Operation" where
  "createPet consumes =
     plainOperation ''createPet'' [Some (bodyParameter (Some True) (plainSchema [''string''] None))]
       (Some responses200NoContent) consumes"

definition arrayParameterWithoutItems :: Parameter where
  "arrayParameterWithoutItems = plainParameter ''ids'' ''query'' ''array'' None"

definition untypedParameter :: Parameter where
  "untypedParameter = plainParameter ''limit'' ''query'' [] None"

definition nullableStringBody :: Parameter where
  "nullableStringBody = bodyParameter None (plainSchema [''string''] (Some True))"

text \<open>
  Object schemas: one with \<^verbatim>\<open>additionalProperties: true\<close>, one with an \<^verbatim>\<open>anyOf\<close>
  list, and one with the single property \<^verbatim>\<open>name: string\<close>.
\<close>

definition openObject :: Schema where
  "openObject =
     Schema [''object''] [] [] [] [] None [] (Some (DynamicValue None True)) None [] None"

definition anyOfObject :: Schema where
  "anyOfObject =
     Schema [''object''] [] [] [] [] None [inlineProxy (plainSchema [''string''] None)] None
       None [] None"

definition namedObject :: Schema where
  "namedObject =
     Schema [''object''] [] [] [] [] None [] None
       (Some [(''name'', inlineProxy (plainSchema [''string''] None))]) [] None"

section \<open>Shared lemmas\<close>

text \<open>The equations that unfold a run of the converter on a concrete document.\<close>

lemmas run_defs =
  sampleHelpers_def sampleOptions_def NewNDCRestSchema_def plainSchema_def inlineProxy_def
  plainParameter_def plainOperation_def isPrimitiveScalar_def ToPascalCase_def
  StringSliceToPascalCase_def isAlphaDigit_def toUpper_def trimPathPrefix_def
  applySchemaNullable_def TypeSchemaOfType_def set_Type_def set_Nullable_def
  set_Properties_def set_Items_def NewScalarType_def getSchemaTypeFromParameter_def
  resolveParameterType_def convertParameter_def convertParameters_def selectResponse_def
  responseResultType_def convertResponse_def convertProcedureOperation_def addProcedure_def
  addFunction_def pathToNDCOperations_def NewNullableNamedType_def ContentTypeJSON_def
  ContentTypeMultipartFormData_def convertSecurities_def Let_def
  stringResponse_def emptyResponse_def responsesOnly404_def responses201_def
  responses200NoContent_def bodyParameter_def createPet_def arrayParameterWithoutItems_def
  untypedParameter_def nullableStringBody_def openObject_def anyOfObject_def namedObject_def

section \<open>The claims\<close>

subsection \<open>C1: the response that is resolved\<close>

text \<open>
  Claim C1, as the code has it. For an operation whose responses declare at least one
  status code, the resolver takes the \<^verbatim>\<open>200\<close> response if it is declared, else the
  \<^verbatim>\<open>201\<close>, else the \<^verbatim>\<open>204\<close> response, and resolves the result type from it. When
  none of the three is declared no response is selected: the declared default response is
  not consulted and the result type is the nullable Boolean. (The branch of
  \<^verbatim>\<open>convertResponse\<close> that reads \<^verbatim>\<open>responses.Default\<close> is guarded by the same
  condition as the early return before it.)
\<close>

theorem C1_select_in_priority_order:
  assumes "resp_Codes rs = Some codes" and "codes \<noteq> []"
  shows "selectResponse rs =
           (case map_of codes ''200'' of Some r \<Rightarrow> Some r
            | None \<Rightarrow> (case map_of codes ''201'' of Some r \<Rightarrow> Some r
                        | None \<Rightarrow> map_of codes ''204''))
       \<and> convertResponse h opts (Some rs) apiPath fieldPaths st =
           responseResultType h opts (selectResponse rs) apiPath fieldPaths st
       \<and> (map_of codes ''200'' = None \<and> map_of codes ''201'' = None \<and> map_of codes ''204'' = None
            \<longrightarrow> selectResponse rs = None
              \<and> convertResponse h opts (Some rs) apiPath fieldPaths st =
                  (Inr (Some (NullableType (NamedType ''Boolean''))), st))"
  using assms
  by (simp add: selectResponse_def convertResponse_def responseResultType_def
      NewNullableNamedType_def split: option.splits)

theorem C1_witness:
  "resp_Codes responsesOnly404 = Some [(''404'', emptyResponse)]
   \<and> [(''404'', emptyResponse)] \<noteq> []
   \<and> map_of [(''404'', emptyResponse)] ''200'' = None
   \<and> map_of [(''404'', emptyResponse)] ''201'' = None
   \<and> map_of [(''404'', emptyResponse)] ''204'' = None
   \<and> selectResponse responsesOnly404 = None
   \<and> convertResponse sampleHelpers sampleOptions (Some responsesOnly404) ''/pets''
        [''listPets'', ''Result''] NewNDCRestSchema =
       (Inr (Some (NullableType (NamedType ''Boolean''))), NewNDCRestSchema)
   \<and> selectResponse responses201 = Some stringResponse"
proof -
  have c: "resp_Codes responsesOnly404 = Some [(''404'', emptyResponse)]"
    by (simp add: responsesOnly404_def)
  have n: "[(''404'', emptyResponse)] \<noteq> []"
    by simp
  have m: "map_of [(''404'', emptyResponse)] ''200'' = None
      \<and> map_of [(''404'', emptyResponse)] ''201'' = None
      \<and> map_of [(''404'', emptyResponse)] ''204'' = None"
    by simp
  have r: "selectResponse responsesOnly404 = None
      \<and> convertResponse sampleHelpers sampleOptions (Some responsesOnly404) ''/pets''
        [''listPets'', ''Result''] NewNDCRestSchema =
       (Inr (Some (NullableType (NamedType ''Boolean''))), NewNDCRestSchema)"
    using C1_select_in_priority_order [OF c n, of sampleHelpers sampleOptions "''/pets''"
      "[''listPets'', ''Result'']" NewNDCRestSchema] m
    by blast
  have c2: "resp_Codes responses201 = Some [(''404'', emptyResponse), (''201'', stringResponse)]"
    by (simp add: responses201_def)
  have s2: "selectResponse responses201 = Some stringResponse"
    using C1_select_in_priority_order [OF c2] by simp
  show ?thesis using c n m r s2 by blast
qed

theorem C1_counterexample:
  "resp_Codes responsesOnly404 = Some [(''404'', emptyResponse)]
   \<and> resp_Default responsesOnly404 = Some stringResponse
   \<and> fst (responseResultType sampleHelpers sampleOptions (resp_Default responsesOnly404)
        ''/pets'' [''listPets'', ''Result''] NewNDCRestSchema) = Inr (Some (NamedType ''String''))
   \<and> fst (convertResponse sampleHelpers sampleOptions (Some responsesOnly404) ''/pets''
        [''listPets'', ''Result''] NewNDCRestSchema) =
       Inr (Some (NullableType (NamedType ''Boolean'')))"
  by (simp add: run_defs)

subsection \<open>C2: Nullable wrappers\<close>

lemma nullableDepth_getSchemaType:
  "fst (getSchemaType h opts s apiPath fieldPaths st) = Inr (t, d) \<Longrightarrow> nullableDepth t \<le> 1"
proof (cases s)
  case None
  assume "fst (getSchemaType h opts s apiPath fieldPaths st) = Inr (t, d)"
  with None show ?thesis by simp
next
  case (Some sch)
  assume r: "fst (getSchemaType h opts s apiPath fieldPaths st) = Inr (t, d)"
  show ?thesis
  proof (cases sch)
    case (Schema types format title description enum nullable anyOf additionalProperties
        properties required items)
    with r Some show ?thesis
      by (auto simp add: applySchemaNullable_def Let_def
          split: if_splits prod.splits sum.splits option.splits DynamicValue.splits)
  qed
qed

lemma nullableDepth_getSchemaType':
  "getSchemaType h opts s apiPath fieldPaths st = (Inr (t, d), st') \<Longrightarrow> nullableDepth t \<le> Suc 0"
  using nullableDepth_getSchemaType [of h opts s apiPath fieldPaths st t d] by simp

lemma getSchemaType_primitive:
  assumes "schema_Type s = [ty]" and "isPrimitiveScalar ty" and "schema_AnyOf s = []"
    and "schema_AdditionalProperties s = None"
  shows "\<exists>name d st'. getSchemaType h opts (Some s) apiPath fieldPaths st =
           (Inr (if schema_Nullable s = Some True then NullableType (NamedType name)
                 else NamedType name, d), st')"
  using assms
  by (cases s) (auto simp add: applySchemaNullable_def Let_def split: prod.splits)

text \<open>
  Claim C2, as the code has it. A type expression returned by
  \<^verbatim>\<open>getSchemaTypeFromProxy\<close> carries at most two Nullable wrappers at its outer level,
  and at most one when the caller's hint is off: \<^verbatim>\<open>getSchemaType\<close> adds one for the
  schema's own nullable flag and \<^verbatim>\<open>getSchemaTypeFromProxy\<close> adds another for the
  hint, without looking at what it wraps. For a primitive schema the result is the Named
  scalar under exactly these wrappers, so a \<^verbatim>\<open>nullable: true\<close> primitive schema of a
  parameter that is not required is Nullable(Nullable(Named ...)).
\<close>

theorem C2_nullable_wrappers:
  assumes "fst (getSchemaTypeFromProxy h opts proxy nullable apiPath fieldPaths st) = Inr (t, d)"
  shows "nullableDepth t \<le> (if nullable then 2 else 1)
       \<and> (\<forall>reference s ty.
            proxy = Some (SchemaProxy reference (Some s)) \<and> schema_Type s = [ty]
            \<and> isPrimitiveScalar ty \<and> schema_AnyOf s = []
            \<and> schema_AdditionalProperties s = None
            \<longrightarrow> (\<exists>name.
                  t = (if nullable
                       then (if schema_Nullable s = Some True
                             then NullableType (NullableType (NamedType name))
                             else NullableType (NamedType name))
                       else (if schema_Nullable s = Some True
                             then NullableType (NamedType name)
                             else NamedType name))))"
proof (cases proxy)
  case None
  with assms show ?thesis by simp
next
  case (Some p)
  show ?thesis
  proof (cases p)
    case (SchemaProxy reference inner)
    show ?thesis
    proof (cases inner)
      case None
      with assms Some SchemaProxy show ?thesis by simp
    next
      case inner: (Some s)
      have bound: "nullableDepth t \<le> (if nullable then 2 else 1)"
        using assms Some SchemaProxy inner
        by (auto simp add: Let_def split: if_splits prod.splits sum.splits
            dest: nullableDepth_getSchemaType')
      have exact: "\<exists>name.
                  t = (if nullable
                       then (if schema_Nullable s = Some True
                             then NullableType (NullableType (NamedType name))
                             else NullableType (NamedType name))
                       else (if schema_Nullable s = Some True
                             then NullableType (NamedType name)
                             else NamedType name))"
        if prim: "schema_Type s = [ty]" "isPrimitiveScalar ty" "schema_AnyOf s = []"
          "schema_AdditionalProperties s = None" for ty
      proof -
        let ?fp = "if schema_Title s \<noteq> [] \<and> CHR '' '' \<notin> set (schema_Title s)
                   then [ToPascalCase (schema_Title s)] else fieldPaths"
        from prim have notobj: "hd (schema_Type s) \<noteq> ''object''"
          by (auto simp add: isPrimitiveScalar_def)
        obtain name d' st' where g: "getSchemaType h opts (Some s) apiPath ?fp st =
           (Inr (if schema_Nullable s = Some True then NullableType (NamedType name)
                 else NamedType name, d'), st')"
          using getSchemaType_primitive [OF prim] by blast
        have "t = (if nullable then NullableType (if schema_Nullable s = Some True
                 then NullableType (NamedType name) else NamedType name)
               else (if schema_Nullable s = Some True
                 then NullableType (NamedType name) else NamedType name))"
          using assms Some SchemaProxy inner notobj g
          by (simp add: Let_def split: if_splits)
        then show ?thesis by (auto split: if_splits)
      qed
      from bound exact Some SchemaProxy inner show ?thesis by blast
    qed
  qed
qed

theorem C2_counterexample:
  "param_Required nullableStringBody = None
   \<and> map_option schema_Nullable (proxy_Schema (the (param_Schema nullableStringBody))) = Some (Some True)
   \<and> map_sum id fst (fst (resolveParameterType sampleHelpers sampleOptions nullableStringBody
        ''/pets'' [''createPet''] NewNDCRestSchema)) =
       Inr (Some (NullableType (NullableType (NamedType ''String''))))"
  by (simp add: run_defs)

theorem C2_witness:
  "\<exists>t d. fst (getSchemaTypeFromProxy sampleHelpers sampleOptions
      (Some (inlineProxy (plainSchema [''string''] (Some True)))) True ''/pets'' [''createPet'']
      NewNDCRestSchema) = Inr (t, d)
    \<and> nullableDepth t = 2
    \<and> t = NullableType (NullableType (NamedType ''String''))"
proof -
  let ?p = "inlineProxy (plainSchema [''string''] (Some True))"
  have "\<exists>d. fst (getSchemaTypeFromProxy sampleHelpers sampleOptions (Some ?p) True ''/pets''
      [''createPet''] NewNDCRestSchema) = Inr (NullableType (NullableType (NamedType ''String'')), d)"
    by (simp add: run_defs)
  then obtain d where
    run: "fst (getSchemaTypeFromProxy sampleHelpers sampleOptions (Some ?p) True ''/pets''
      [''createPet''] NewNDCRestSchema) = Inr (NullableType (NullableType (NamedType ''String'')), d)"
    by blast
  have "nullableDepth (NullableType (NullableType (NamedType ''String''))) \<le> 2"
    using C2_nullable_wrappers [OF run] by simp
  with run show ?thesis by simp
qed

subsection \<open>C4: the nullable Boolean result\<close>

text \<open>
  Claim C4, as the code has it. An operation with no responses object has no result type:
  \<^verbatim>\<open>convertResponse\<close> returns \<^verbatim>\<open>nil, nil\<close>. An operation that declares at least one
  status code has the nullable Boolean as its result type when no response is selected
  (none of \<^verbatim>\<open>200\<close>, \<^verbatim>\<open>201\<close>, \<^verbatim>\<open>204\<close> is declared) or when the selected response
  declares no schema.
\<close>

theorem C4_no_content_result:
  "convertResponse h opts None apiPath fieldPaths st = (Inr None, st)
   \<and> (\<forall>rs codes.
          resp_Codes rs = Some codes \<and> codes \<noteq> []
          \<and> (selectResponse rs = None
               \<or> (\<exists>r. selectResponse rs = Some r \<and> resp_Schema r = None))
        \<longrightarrow> convertResponse h opts (Some rs) apiPath fieldPaths st =
              (Inr (Some (NullableType (NamedType ''Boolean''))), st))"
  by (auto simp add: convertResponse_def responseResultType_def
      NewNullableNamedType_def split: option.splits)

theorem C4_witness:
  "resp_Codes responses200NoContent = Some [(''200'', emptyResponse)]
   \<and> [(''200'', emptyResponse)] \<noteq> []
   \<and> selectResponse responses200NoContent = Some emptyResponse
   \<and> resp_Schema emptyResponse = None
   \<and> convertResponse sampleHelpers sampleOptions (Some responses200NoContent) ''/pets''
        [''listPets'', ''Result''] NewNDCRestSchema =
       (Inr (Some (NullableType (NamedType ''Boolean''))), NewNDCRestSchema)
   \<and> resp_Codes responsesOnly404 = Some [(''404'', emptyResponse)]
   \<and> selectResponse responsesOnly404 = None
   \<and> convertResponse sampleHelpers sampleOptions (Some responsesOnly404) ''/pets''
        [''listPets'', ''Result''] NewNDCRestSchema =
       (Inr (Some (NullableType (NamedType ''Boolean''))), NewNDCRestSchema)"
proof -
  have sel: "selectResponse responses200NoContent = Some emptyResponse"
    by (simp add: selectResponse_def responses200NoContent_def)
  have codes: "resp_Codes responses200NoContent = Some [(''200'', emptyResponse)]"
    by (simp add: responses200NoContent_def)
  have none: "resp_Schema emptyResponse = None"
    by (simp add: emptyResponse_def)
  have sel': "selectResponse responsesOnly404 = None"
    by (simp add: selectResponse_def responsesOnly404_def)
  have codes': "resp_Codes responsesOnly404 = Some [(''404'', emptyResponse)]"
    by (simp add: responsesOnly404_def)
  note t = C4_no_content_result [of sampleHelpers sampleOptions "''/pets''"
      "[''listPets'', ''Result'']" NewNDCRestSchema]
  have a: "convertResponse sampleHelpers sampleOptions (Some responses200NoContent) ''/pets''
        [''listPets'', ''Result''] NewNDCRestSchema =
       (Inr (Some (NullableType (NamedType ''Boolean''))), NewNDCRestSchema)"
    using t sel codes none by blast
  have b: "convertResponse sampleHelpers sampleOptions (Some responsesOnly404) ''/pets''
        [''listPets'', ''Result''] NewNDCRestSchema =
       (Inr (Some (NullableType (NamedType ''Boolean''))), NewNDCRestSchema)"
    using t sel' codes' by blast
  show ?thesis using a b sel codes none sel' codes' by simp
qed

theorem C4_counterexample:
  "fst (convertResponse sampleHelpers sampleOptions None ''/pets'' [''listPets'', ''Result'']
      NewNDCRestSchema) = Inr None"
  by (simp add: convertResponse_def)

subsection \<open>C7: the content type of a procedure's request body\<close>

text \<open>
  Claim C7. For an operation of a mutating method whose response resolves to a result
  type, whose parameters convert to a request body, and whose \<^verbatim>\<open>consumes\<close> list is not
  empty, \<^verbatim>\<open>convertProcedureOperation\<close> returns a procedure whose request body is that
  body with its content type set to \<^verbatim>\<open>application/json\<close> if that is an element of the
  list, and to the first element of the list otherwise.
\<close>

theorem C7_request_content_type:
  assumes "procName = (if op_OperationId operation = []
                       then buildPathMethodName h pathKey method opts
                       else op_OperationId operation)"
    and "convertResponse h opts (op_Responses operation) pathKey [procName, ''Result''] st =
           (Inr (Some resultType), st1)"
    and "convertParameters h opts (op_Parameters operation) pathKey [procName] st1 =
           (Inr (arguments, reqParams, Some body), st2)"
    and "op_Consumes operation \<noteq> []"
  shows "\<exists>procedure.
           convertProcedureOperation h opts pathKey method (Some operation) st =
             (Inr (Some procedure), st2)
           \<and> req_RequestBody (proc_Request procedure) =
               Some (body\<lparr>body_ContentType :=
                      (if ContentTypeJSON \<in> set (op_Consumes operation) then ContentTypeJSON
                       else hd (op_Consumes operation))\<rparr>)"
  using assms
  by (simp add: convertProcedureOperation_def Let_def)

theorem C7_witness:
  "(\<exists>procedure st2.
      convertProcedureOperation sampleHelpers sampleOptions ''/pets'' ''post''
        (Some (createPet [''application/xml'', ''application/json''])) NewNDCRestSchema =
        (Inr (Some procedure), st2)
      \<and> map_option body_ContentType (req_RequestBody (proc_Request procedure)) =
          Some ''application/json'')
   \<and> (\<exists>procedure st2.
      convertProcedureOperation sampleHelpers sampleOptions ''/pets'' ''post''
        (Some (createPet [''application/xml'', ''text/plain''])) NewNDCRestSchema =
        (Inr (Some procedure), st2)
      \<and> map_option body_ContentType (req_RequestBody (proc_Request procedure)) =
          Some ''application/xml'')"
proof -
  have run: "\<exists>procedure.
      convertProcedureOperation sampleHelpers sampleOptions ''/pets'' ''post''
        (Some (createPet consumes)) NewNDCRestSchema = (Inr (Some procedure), st2)
      \<and> map_option body_ContentType (req_RequestBody (proc_Request procedure)) =
          Some (if ContentTypeJSON \<in> set consumes then ContentTypeJSON else hd consumes)"
    if consumes: "consumes \<noteq> []"
      and params: "convertParameters sampleHelpers sampleOptions
        (op_Parameters (createPet consumes)) ''/pets'' [''createPet''] NewNDCRestSchema =
        (Inr (arguments, reqParams, Some body), st2)"
    for consumes arguments reqParams body st2
  proof -
    have name: "''createPet'' = (if op_OperationId (createPet consumes) = []
        then buildPathMethodName sampleHelpers ''/pets'' ''post'' sampleOptions
        else op_OperationId (createPet consumes))"
      by (simp add: createPet_def plainOperation_def)
    have resp: "convertResponse sampleHelpers sampleOptions (op_Responses (createPet consumes))
        ''/pets'' [''createPet'', ''Result''] NewNDCRestSchema =
        (Inr (Some (NullableType (NamedType ''Boolean''))), NewNDCRestSchema)"
      by (simp add: run_defs)
    have cons: "op_Consumes (createPet consumes) \<noteq> []"
      using consumes by (simp add: createPet_def plainOperation_def)
    from C7_request_content_type [OF name resp params cons]
    show ?thesis by (auto simp add: createPet_def plainOperation_def)
  qed
  have params: "\<exists>arguments reqParams body st2.
      convertParameters sampleHelpers sampleOptions (op_Parameters (createPet consumes))
        ''/pets'' [''createPet''] NewNDCRestSchema = (Inr (arguments, reqParams, Some body), st2)"
    for consumes
    by (simp add: run_defs)
  from params [of "[''application/xml'', ''application/json'']"]
  obtain a1 r1 b1 s1 where p1: "convertParameters sampleHelpers sampleOptions
      (op_Parameters (createPet [''application/xml'', ''application/json''])) ''/pets''
      [''createPet''] NewNDCRestSchema = (Inr (a1, r1, Some b1), s1)"
    by blast
  from params [of "[''application/xml'', ''text/plain'']"]
  obtain a2 r2 b2 s2 where p2: "convertParameters sampleHelpers sampleOptions
      (op_Parameters (createPet [''application/xml'', ''text/plain''])) ''/pets''
      [''createPet''] NewNDCRestSchema = (Inr (a2, r2, Some b2), s2)"
    by blast
  have 1: "\<exists>procedure st2.
      convertProcedureOperation sampleHelpers sampleOptions ''/pets'' ''post''
        (Some (createPet [''application/xml'', ''application/json''])) NewNDCRestSchema =
        (Inr (Some procedure), st2)
      \<and> map_option body_ContentType (req_RequestBody (proc_Request procedure)) =
          Some ''application/json''"
    using run [OF _ p1] by (auto simp add: ContentTypeJSON_def)
  have 2: "\<exists>procedure st2.
      convertProcedureOperation sampleHelpers sampleOptions ''/pets'' ''post''
        (Some (createPet [''application/xml'', ''text/plain''])) NewNDCRestSchema =
        (Inr (Some procedure), st2)
      \<and> map_option body_ContentType (req_RequestBody (proc_Request procedure)) =
          Some ''application/xml''"
    using run [OF _ p2] by (auto simp add: ContentTypeJSON_def)
  from 1 2 show ?thesis by blast
qed

subsection \<open>C8: an array parameter without items\<close>

text \<open>
  Claim C8 fails on the code. For the parameter \<^verbatim>\<open>{name: ids, in: query, type: array}\<close>
  with no \<^verbatim>\<open>items\<close>, the guard \<^verbatim>\<open>param.Items == nil && param.Items.Type == ""\<close> of
  \<^verbatim>\<open>getSchemaTypeFromParameter\<close> reads through the nil pointer: the conversion panics
  and no error value reaches the caller. With \<^verbatim>\<open>items\<close> present and an empty item type
  the guard is false and the missing-item error is not returned either.
\<close>

theorem C8_array_parameter_without_items:
  "getSchemaTypeFromParameter h opts arrayParameterWithoutItems apiPath fieldPaths st =
     (Inl NilPointerPanic, st)
   \<and> convertParameters h opts [Some arrayParameterWithoutItems] apiPath fieldPaths st =
     (Inl NilPointerPanic, st)
   \<and> fst (getSchemaTypeFromParameter h opts
        (arrayParameterWithoutItems\<lparr>param_Items := Some \<lparr>items_Type = []\<rparr>\<rparr>)
        apiPath fieldPaths st) \<noteq> Inl (Error ArrayItemIsEmpty)"
  by (simp add: arrayParameterWithoutItems_def plainParameter_def getSchemaTypeFromParameter_def
      convertParameters_def convertParameter_def resolveParameterType_def isPrimitiveScalar_def
      Let_def split: prod.splits)

subsection \<open>C9: an object without properties\<close>

text \<open>
  Claim C9, as the code has it. For a schema node whose only type is \<^verbatim>\<open>object\<close>, with
  no \<^verbatim>\<open>anyOf\<close> and no \<^verbatim>\<open>additionalProperties\<close> (such nodes are the JSON scalar) and
  with no declared properties, \<^verbatim>\<open>getSchemaType\<close> registers the PascalCase name of the
  field path in the scalar registry, leaves the object registry as it was, and returns
  the Named type of that name, wrapped in Nullable when the schema's own nullable flag is
  set.
\<close>

theorem C9_object_without_properties:
  assumes "schema_Type s = [''object'']" and "schema_AnyOf s = []"
    and "schema_AdditionalProperties s = None"
    and "schema_Properties s = None \<or> schema_Properties s = Some []"
  shows "getSchemaType h opts (Some s) apiPath fieldPaths st =
           (Inr (if schema_Nullable s = Some True
                 then NullableType (NamedType (StringSliceToPascalCase fieldPaths))
                 else NamedType (StringSliceToPascalCase fieldPaths),
                 set_Type ''object'' (createSchemaFromOpenAPISchema h s [])),
            st\<lparr>ScalarTypes :=
                 (ScalarTypes st)(StringSliceToPascalCase fieldPaths \<mapsto> NewScalarType)\<rparr>)
       \<and> ScalarTypes (snd (getSchemaType h opts (Some s) apiPath fieldPaths st))
           (StringSliceToPascalCase fieldPaths) = Some NewScalarType
       \<and> ObjectTypes (snd (getSchemaType h opts (Some s) apiPath fieldPaths st)) = ObjectTypes st"
  using assms
  by (cases s) (auto simp add: isPrimitiveScalar_def applySchemaNullable_def Let_def)

theorem C9_witness:
  "schema_Type (plainSchema [''object''] None) = [''object'']
   \<and> schema_AnyOf (plainSchema [''object''] None) = []
   \<and> schema_AdditionalProperties (plainSchema [''object''] None) = None
   \<and> schema_Properties (plainSchema [''object''] None) = None
   \<and> map_sum id fst (fst (getSchemaType sampleHelpers sampleOptions (Some (plainSchema [''object''] None))
        [] [''Pet'', ''Owner''] NewNDCRestSchema)) = Inr (NamedType ''PetOwner'')
   \<and> ScalarTypes (snd (getSchemaType sampleHelpers sampleOptions
        (Some (plainSchema [''object''] None)) [] [''Pet'', ''Owner''] NewNDCRestSchema))
        ''PetOwner'' = Some NewScalarType
   \<and> ObjectTypes (snd (getSchemaType sampleHelpers sampleOptions
        (Some (plainSchema [''object''] None)) [] [''Pet'', ''Owner''] NewNDCRestSchema))
        ''PetOwner'' = None"
proof -
  let ?s = "plainSchema [''object''] None"
  have a: "schema_Type ?s = [''object'']" and b: "schema_AnyOf ?s = []"
    and c: "schema_AdditionalProperties ?s = None" and d: "schema_Properties ?s = None"
    and e: "schema_Nullable ?s = None"
    by (simp_all add: plainSchema_def)
  have n: "StringSliceToPascalCase [''Pet'', ''Owner''] = ''PetOwner''"
    by (simp add: StringSliceToPascalCase_def ToPascalCase_def isAlphaDigit_def toUpper_def)
  from d have d': "schema_Properties ?s = None \<or> schema_Properties ?s = Some []" by simp
  note t = C9_object_without_properties [OF a b c d', of sampleHelpers sampleOptions "[]"
      "[''Pet'', ''Owner'']" NewNDCRestSchema]
  have 1: "map_sum id fst (fst (getSchemaType sampleHelpers sampleOptions (Some ?s) [] [''Pet'', ''Owner'']
      NewNDCRestSchema)) = Inr (NamedType ''PetOwner'')"
    using t e n by simp
  have 2: "ScalarTypes (snd (getSchemaType sampleHelpers sampleOptions (Some ?s) []
      [''Pet'', ''Owner''] NewNDCRestSchema)) ''PetOwner'' = Some NewScalarType"
    using t n by simp
  have 3: "ObjectTypes (snd (getSchemaType sampleHelpers sampleOptions (Some ?s) []
      [''Pet'', ''Owner''] NewNDCRestSchema)) ''PetOwner'' = None"
    using t by (simp add: NewNDCRestSchema_def)
  show ?thesis using a b c d 1 2 3 by blast
qed

theorem C9_counterexample:
  "map_sum id fst (fst (getSchemaType sampleHelpers sampleOptions
        (Some (plainSchema [''object''] (Some True))) [] [''Pet'', ''Owner''] NewNDCRestSchema)) =
       Inr (NullableType (NamedType ''PetOwner''))
   \<and> map_sum id fst (fst (getSchemaType sampleHelpers sampleOptions
        (Some openObject) [] [''Pet'', ''Owner''] NewNDCRestSchema)) = Inr (NamedType ''JSON'')
   \<and> ScalarTypes (snd (getSchemaType sampleHelpers sampleOptions
        (Some openObject) [] [''Pet'', ''Owner''] NewNDCRestSchema)) ''PetOwner'' = None
   \<and> map_sum id fst (fst (getSchemaType sampleHelpers sampleOptions
        (Some anyOfObject) [] [''Pet'', ''Owner''] NewNDCRestSchema)) = Inr (NamedType ''JSON'')
   \<and> ScalarTypes (snd (getSchemaType sampleHelpers sampleOptions
        (Some anyOfObject) [] [''Pet'', ''Owner''] NewNDCRestSchema)) ''PetOwner'' = None
   \<and> map_sum id fst (fst (getSchemaType sampleHelpers sampleOptions
        (Some (plainSchema [''object'', ''null''] None)) [] [''Pet'', ''Owner'']
        NewNDCRestSchema)) = Inr (NamedType ''JSON'')
   \<and> ScalarTypes (snd (getSchemaType sampleHelpers sampleOptions
        (Some (plainSchema [''object'', ''null''] None)) [] [''Pet'', ''Owner'']
        NewNDCRestSchema)) ''PetOwner'' = None
   \<and> ObjectTypes (snd (getSchemaType sampleHelpers sampleOptions
        (Some namedObject) [] [''Pet'', ''Owner''] NewNDCRestSchema)) ''PetOwner'' \<noteq> None
   \<and> ObjectTypes (snd (getSchemaType sampleHelpers sampleOptions
        (Some (plainSchema [''object''] None)) [] [''Pet'', ''Owner'']
        (snd (getSchemaType sampleHelpers sampleOptions
           (Some namedObject) [] [''Pet'', ''Owner''] NewNDCRestSchema)))) ''PetOwner'' \<noteq> None"
  by (simp add: run_defs)

subsection \<open>C10: a parameter with neither type nor schema\<close>

text \<open>
  Claim C10 fails on the code. A parameter with a name and a recognised location but
  neither a \<^verbatim>\<open>type\<close> nor a \<^verbatim>\<open>schema\<close> leaves \<^verbatim>\<open>schemaType\<close> nil, and
  \<^verbatim>\<open>schemaType.Encode()\<close> (line 368) is a method call on the nil interface:
  \<^verbatim>\<open>convertParameters\<close> panics.
\<close>

theorem C10_parameter_without_type_and_schema:
  assumes "param_Name param \<noteq> []" and "param_Type param = []" and "param_Schema param = None"
    and "ParseParameterLocation h (param_In param) = Inr location"
  shows "convertParameter h opts apiPath fieldPaths param acc st = (Inl NilPointerPanic, st)
       \<and> convertParameters h opts [Some param] apiPath fieldPaths st = (Inl NilPointerPanic, st)"
  using assms
  by (simp add: convertParameters_def convertParameter_def resolveParameterType_def Let_def
      split: prod.splits)

theorem C10_witness:
  "param_Name untypedParameter \<noteq> [] \<and> param_Type untypedParameter = []
   \<and> param_Schema untypedParameter = None
   \<and> ParseParameterLocation sampleHelpers (param_In untypedParameter) = Inr InQuery
   \<and> convertParameters sampleHelpers sampleOptions [Some untypedParameter] ''/pets''
        [''listPets''] NewNDCRestSchema = (Inl NilPointerPanic, NewNDCRestSchema)"
proof -
  have a: "param_Name untypedParameter \<noteq> []" and b: "param_Type untypedParameter = []"
    and c: "param_Schema untypedParameter = None"
    and d: "ParseParameterLocation sampleHelpers (param_In untypedParameter) = Inr InQuery"
    by (simp_all add: untypedParameter_def plainParameter_def sampleHelpers_def)
  from C10_parameter_without_type_and_schema [OF a b c d] a b c d
  show ?thesis by blast
qed

end
